theory Spec2Isabelle
  imports Complex_Main
begin

section \<open>RotatingSquare.js: a square rotating about a selectable vertex\<close>

text \<open>
  The program keeps a flat array of vertex coordinates, maps them to canvas
  pixels, builds a translate-rotate-translate matrix from the vertex whose index is
  the global \<open>edge\<close>, and redraws once per animation frame with an angle that
  decreases by two degrees per frame.

  JavaScript Numbers are modelled as follows. Indices and the rotation counter only
  ever hold integers of small magnitude, on which IEEE double arithmetic is exact; they
  are \<open>int\<close>. Coordinates, the canvas size and matrix entries are \<open>real\<close>:
  the model is the exact-arithmetic reading of the formulas, without the rounding of
  binary64. The program's results differ from the model's by rounding errors, so a
  strict inequality between two results, or a property that needs two nearby inputs
  to give different outputs, does not carry over from the model to the program and
  is not stated here. What is stated about coordinates is of these kinds: equalities
  between two evaluations of the same expression, which rounding cannot separate;
  the transform at the angle 0, where the two translations cancel exactly in
  binary64 too and the matrix is the identity; evaluations on a 400 by 400 canvas
  at the half turn, where the projected coordinates are exact in binary64 and the
  matrix is written with the exact sine and cosine; and that the centre of the
  rotation built by \<open>draw\<close> is mapped to itself, which the program does up to
  rounding. The last two serve to show where the drawn polygon is, at a scale of
  a hundred pixels.
  The value \<open>undefined\<close> (an out-of-range read of a typed array, a missing property)
  is \<open>None\<close>.
\<close>

subsection \<open>Geometry store\<close>

text \<open>
  \<^verbatim>\<open>var vertices = new Float32Array([-0.5, -0.5, 0.5, -0.5, 0.5, 0.5, -0.5, -0.5, 0.5, 0.5, -0.5, 0.5]);\<close>
  Two triangles, three vertices each, two coordinates per vertex. All twelve values
  are exactly representable in single precision.
\<close>

definition vertices :: "real list" where
  "vertices = [- 0.5, - 0.5, 0.5, - 0.5, 0.5, 0.5, - 0.5, - 0.5, 0.5, 0.5, - 0.5, 0.5]"

text \<open>\<^verbatim>\<open>var numPoints = vertices.length / 2;\<close> The length is even, so the quotient is exact.\<close>

definition numPoints :: int where
  "numPoints = int (length vertices) div 2"

text \<open>
  Reading a typed array at an integer index outside \<open>0 .. length - 1\<close> yields
  \<open>undefined\<close>; nothing is thrown.
\<close>

definition typed_array_get :: "real list \<Rightarrow> int \<Rightarrow> real option" where
  "typed_array_get a j = (if 0 \<le> j \<and> j < int (length a) then Some (a ! nat j) else None)"

text \<open>
  The JavaScript remainder \<open>a % b\<close> on integers truncates towards zero: the result
  has the sign of the dividend. (For \<open>b = 0\<close> JavaScript gives NaN; the only divisor
  in this program is \<open>numPoints\<close>, which is 6.)
\<close>

definition js_rem :: "int \<Rightarrow> int \<Rightarrow> int" where
  "js_rem a b = sgn a * (\<bar>a\<bar> mod \<bar>b\<bar>)"

text \<open>
  \<^verbatim>\<open>function getVertex(i) { let j = (i % numPoints) * 2; return [vertices[j], vertices[j + 1]]; }\<close>
\<close>

definition getVertex :: "int \<Rightarrow> real option \<times> real option" where
  "getVertex i =
     (let j = js_rem i numPoints * 2
      in (typed_array_get vertices j, typed_array_get vertices (j + 1)))"

subsection \<open>Viewport mapper\<close>

text \<open>
  \<^verbatim>\<open>function mapToViewport(x, y, n = 5) { return [((x + n / 2) * w) / n, ((-y + n / 2) * h) / n]; }\<close>
  The globals \<open>w\<close> and \<open>h\<close> (canvas width and height, assigned once in
  \<open>mainEntrance\<close>) are the first two parameters of the model. Callers that omit
  \<open>n\<close> pass 5. The model evaluates the formula exactly; the program rounds after
  each of the four operations. In binary64 two world coordinates closer together
  than the rounding step of the sum \<open>-y + n / 2\<close> give the same pixel coordinate,
  so the map is order-reversing in \<open>y\<close> but not strictly so; the exact formula is
  strict, and no statement below relies on that.
\<close>

definition mapToViewport :: "real \<Rightarrow> real \<Rightarrow> real \<Rightarrow> real \<Rightarrow> real \<Rightarrow> real \<times> real" where
  "mapToViewport w h x y n = (((x + n / 2) * w) / n, ((- y + n / 2) * h) / n)"

subsection \<open>Pivot selector (the global \<open>edge\<close> and the keydown listener)\<close>

text \<open>\<^verbatim>\<open>const indexCoord = { 'r': 0, 'g': 1, 'b': 2, 'w': 3 };\<close>\<close>

definition indexCoord :: "string \<Rightarrow> int option" where
  "indexCoord = [''r'' \<mapsto> 0, ''g'' \<mapsto> 1, ''b'' \<mapsto> 2, ''w'' \<mapsto> 3]"

text \<open>\<^verbatim>\<open>var edge = 0;\<close>\<close>

definition edge_init :: "int option" where
  "edge_init = Some 0"

text \<open>
  The listener: \<^verbatim>\<open>if (e.key === 'r' || e.key === 'g' || e.key === 'b' || e.key === 'w') { edge = indexCoord[e.key]; }\<close>
  It takes the key string of the event and the current value of \<open>edge\<close> and returns
  the new value.
\<close>

definition keydown :: "string \<Rightarrow> int option \<Rightarrow> int option" where
  "keydown key edge =
     (if key = ''r'' \<or> key = ''g'' \<or> key = ''b'' \<or> key = ''w''
      then indexCoord key else edge)"

text \<open>The values \<open>edge\<close> can hold: the initial one, and whatever key events make of it.\<close>

inductive edge_reachable :: "int option \<Rightarrow> bool" where
  initial: "edge_reachable edge_init"
| key_event: "edge_reachable edge \<Longrightarrow> edge_reachable (keydown key edge)"

subsection \<open>The browser's \<open>DOMMatrix\<close> and \<open>DOMPoint\<close>, restricted to two dimensions\<close>

text \<open>
  The program only calls \<open>translate(tx, ty, 0)\<close>, \<open>rotate(angle)\<close> and
  \<open>matrixTransform\<close>, which keep a matrix two-dimensional, so six entries suffice.
  A matrix maps the point \<open>(x, y)\<close> to
  \<open>(m11 x + m21 y + m41, m12 x + m22 y + m42)\<close>. Each method returns a new matrix,
  the receiver post-multiplied by the elementary transformation; \<open>rotate\<close> with one
  argument is a rotation about the z axis by that many degrees. (The model's
  \<open>rotate_deg\<close> is the method \<open>rotate\<close>; the plain name is taken by a list
  function of the library.)
\<close>

record DOMMatrix =
  m11 :: real
  m12 :: real
  m21 :: real
  m22 :: real
  m41 :: real
  m42 :: real

type_synonym DOMPoint = "real \<times> real"

definition identity_matrix :: DOMMatrix where
  "identity_matrix = \<lparr>m11 = 1, m12 = 0, m21 = 0, m22 = 1, m41 = 0, m42 = 0\<rparr>"

definition multiply :: "DOMMatrix \<Rightarrow> DOMMatrix \<Rightarrow> DOMMatrix" where
  "multiply A B =
     \<lparr>m11 = m11 A * m11 B + m21 A * m12 B,
      m12 = m12 A * m11 B + m22 A * m12 B,
      m21 = m11 A * m21 B + m21 A * m22 B,
      m22 = m12 A * m21 B + m22 A * m22 B,
      m41 = m11 A * m41 B + m21 A * m42 B + m41 A,
      m42 = m12 A * m41 B + m22 A * m42 B + m42 A\<rparr>"

definition translate :: "DOMMatrix \<Rightarrow> real \<Rightarrow> real \<Rightarrow> DOMMatrix" where
  "translate M tx ty =
     multiply M \<lparr>m11 = 1, m12 = 0, m21 = 0, m22 = 1, m41 = tx, m42 = ty\<rparr>"

definition rotate_deg :: "DOMMatrix \<Rightarrow> real \<Rightarrow> DOMMatrix" where
  "rotate_deg M angle =
     (let t = angle * pi / 180
      in multiply M \<lparr>m11 = cos t, m12 = sin t, m21 = - sin t, m22 = cos t, m41 = 0, m42 = 0\<rparr>)"

text \<open>
  \<open>point.matrixTransform(m)\<close>. The argument is an optional dictionary: when the
  program passes \<open>undefined\<close>, the browser uses the identity matrix.
\<close>

definition matrixTransform :: "DOMPoint \<Rightarrow> DOMMatrix option \<Rightarrow> DOMPoint" where
  "matrixTransform p m =
     (case m of
        None \<Rightarrow> p
      | Some M \<Rightarrow> (m11 M * fst p + m21 M * snd p + m41 M, m12 M * fst p + m22 M * snd p + m42 M))"

subsection \<open>Renderer (\<open>draw\<close>)\<close>

text \<open>
  The canvas context is an external object; the model records the calls \<open>draw\<close>
  makes on it, in order. What pixels those calls produce is the browser's business.
\<close>

datatype canvas_call =
    FillStyle string
  | Rect real real real real
  | Fill
  | BeginPath
  | MoveTo real real
  | LineTo real real
  | ClosePath

text \<open>
  Two things the exact-arithmetic model has no value for: a coordinate computed from
  \<open>undefined\<close> (NaN in the browser), and a method call on a missing array element
  (a TypeError in the browser). Both are shown below never to happen.
\<close>

datatype fault = NaN_coordinate | TypeError

text \<open>
  The first loop of \<open>draw\<close>:
  \<^verbatim>\<open>
  for (let i = 0; i < numPoints; i++) {
      let [x, y] = mapToViewport(...getVertex(i));
      let point = new DOMPoint(x,y);
      points.push(point);
      if (i == edge) var m = matrix.translate(w-x, h-y, 0).rotate(rotation).translate(x-w, y-h, 0);
  }\<close>
  with \<open>matrix\<close> a fresh (identity) \<open>DOMMatrix\<close>. The function-scoped \<open>m\<close> is
  \<open>undefined\<close> until the branch is taken.
\<close>

function project_loop ::
  "real \<Rightarrow> real \<Rightarrow> int option \<Rightarrow> real \<Rightarrow> int \<Rightarrow> DOMPoint list \<Rightarrow> DOMMatrix option
     \<Rightarrow> fault + (DOMPoint list \<times> DOMMatrix option)" where
  "project_loop w h edge rotation i points m =
     (if i < numPoints then
        (case getVertex i of
           (Some vx, Some vy) \<Rightarrow>
             (let (x, y) = mapToViewport w h vx vy 5;
                  points' = points @ [(x, y)];
                  m' = (if Some i = edge
                        then Some (translate (rotate_deg (translate identity_matrix (w - x) (h - y)) rotation)
                                     (x - w) (y - h))
                        else m)
              in project_loop w h edge rotation (i + 1) points' m')
         | _ \<Rightarrow> Inl NaN_coordinate)
      else Inr (points, m))"
  by pat_completeness auto
termination
  by (relation "measure (\<lambda>(w, h, edge, rotation, i, points, m). nat (numPoints - i))") auto

text \<open>
  The second loop:
  \<^verbatim>\<open>
  for (let i = 0; i < numPoints; i++) {
      let pointRotated = points[i].matrixTransform(m);
      if (i == 0) ctx.moveTo(pointRotated.x, pointRotated.y);
      else ctx.lineTo(pointRotated.x, pointRotated.y);
  }\<close>
  It appends its calls to those made so far.
\<close>

function path_loop ::
  "DOMPoint list \<Rightarrow> DOMMatrix option \<Rightarrow> int \<Rightarrow> canvas_call list \<Rightarrow> fault + canvas_call list" where
  "path_loop points m i calls =
     (if i < numPoints then
        (if 0 \<le> i \<and> nat i < length points then
           (let pointRotated = matrixTransform (points ! nat i) m
            in path_loop points m (i + 1)
                 (calls @ [if i = 0 then MoveTo (fst pointRotated) (snd pointRotated)
                           else LineTo (fst pointRotated) (snd pointRotated)]))
         else Inl TypeError)
      else Inr calls)"
  by pat_completeness auto
termination
  by (relation "measure (\<lambda>(points, m, i, calls). nat (numPoints - i))") auto

text \<open>
  \<open>draw(ctx, rotation)\<close>, with the globals \<open>w\<close>, \<open>h\<close> and \<open>edge\<close> it reads
  as parameters. It assigns to no global.
\<close>

definition draw :: "real \<Rightarrow> real \<Rightarrow> int option \<Rightarrow> real \<Rightarrow> fault + canvas_call list" where
  "draw w h edge rotation =
     (case project_loop w h edge rotation 0 [] None of
        Inl e \<Rightarrow> Inl e
      | Inr (points, m) \<Rightarrow>
          (case path_loop points m 0
                  [FillStyle ''rgba(255, 255, 255, 1)'', Rect 0 0 w h, Fill, BeginPath] of
             Inl e \<Rightarrow> Inl e
           | Inr calls \<Rightarrow> Inr (calls @ [ClosePath, FillStyle ''rgba(0, 204, 204, 1)'', Fill])))"

text \<open>The points of the polygon as drawn: the arguments of the path calls, in order.\<close>

fun drawn_points :: "canvas_call list \<Rightarrow> DOMPoint list" where
  "drawn_points [] = []"
| "drawn_points (MoveTo x y # cs) = (x, y) # drawn_points cs"
| "drawn_points (LineTo x y # cs) = (x, y) # drawn_points cs"
| "drawn_points (c # cs) = drawn_points cs"

subsection \<open>Animation driver (the closure \<open>runanimation\<close>)\<close>

text \<open>
  The closure variable \<open>rotation\<close> starts at 0. One frame calls
  \<open>draw(ctx, rotation)\<close>, then executes
  \<^verbatim>\<open>rotation -= 2; if (rotation < -360) { rotation = 0; }\<close>
  and schedules itself again. \<open>next_rotation\<close> is that update.
\<close>

definition next_rotation :: "int \<Rightarrow> int" where
  "next_rotation rotation =
     (let r = rotation - 2 in if r < - 360 then 0 else r)"

text \<open>
  The loop never stops by itself (\<open>requestAnimationFrame\<close> reschedules it for
  ever), so the model runs it for a given number of frames and returns the angles
  handed to \<open>draw\<close>, oldest first.
\<close>

fun runanimation :: "nat \<Rightarrow> int \<Rightarrow> int list" where
  "runanimation 0 rotation = []"
| "runanimation (Suc n) rotation = rotation # runanimation n (next_rotation rotation)"

text \<open>The angle rendered at frame \<open>k\<close> (frames counted from 0), from the initial 0.\<close>

definition rendered :: "nat \<Rightarrow> int" where
  "rendered k = runanimation (Suc k) 0 ! k"

subsection \<open>Closed forms used in the proofs\<close>

text \<open>
  The six pixel points that the first loop of \<open>draw\<close> collects, and the matrix
  it leaves in \<open>m\<close>, written out. Lemma \<open>project_loop_eval\<close> below shows that
  they are what the loop computes; no property is stated in terms of them alone.
\<close>

definition vertex_pixels :: "real \<Rightarrow> real \<Rightarrow> DOMPoint list" where
  "vertex_pixels w h =
     [(2 * w / 5, 3 * h / 5), (3 * w / 5, 3 * h / 5), (3 * w / 5, 2 * h / 5),
      (2 * w / 5, 3 * h / 5), (3 * w / 5, 2 * h / 5), (2 * w / 5, 2 * h / 5)]"

definition pivot_matrix :: "real \<Rightarrow> real \<Rightarrow> int option \<Rightarrow> real \<Rightarrow> DOMMatrix option" where
  "pivot_matrix w h edge rotation =
     (case edge of
        None \<Rightarrow> None
      | Some e \<Rightarrow>
          if 0 \<le> e \<and> e < 6
          then Some (translate (rotate_deg (translate identity_matrix
                       (w - fst (vertex_pixels w h ! nat e)) (h - snd (vertex_pixels w h ! nat e))) rotation)
                       (- (w - fst (vertex_pixels w h ! nat e))) (- (h - snd (vertex_pixels w h ! nat e))))
          else None)"

section \<open>Properties\<close>

declare project_loop.simps [simp del] path_loop.simps [simp del]

subsection \<open>Geometry store\<close>

lemma numPoints_eq: "numPoints = 6" by (simp add: numPoints_def vertices_def)

lemma js_rem_nonneg: "0 \<le> i \<Longrightarrow> 0 < b \<Longrightarrow> js_rem i b = i mod b"
  by (cases "i = 0") (simp_all add: js_rem_def)

lemma js_rem_neg: "i < 0 \<Longrightarrow> 0 < b \<Longrightarrow> js_rem i b = - ((- i) mod b)"
  by (simp add: js_rem_def)

lemma length_vertices: "length vertices = 12" by (simp add: vertices_def)

lemma getVertex_values:
  "getVertex 0 = (Some (- (1/2)), Some (- (1/2)))"
  "getVertex 1 = (Some (1/2), Some (- (1/2)))"
  "getVertex 2 = (Some (1/2), Some (1/2))"
  "getVertex 3 = (Some (- (1/2)), Some (- (1/2)))"
  "getVertex 4 = (Some (1/2), Some (1/2))"
  "getVertex 5 = (Some (- (1/2)), Some (1/2))"
  by (simp_all add: getVertex_def js_rem_def numPoints_eq typed_array_get_def vertices_def)

lemma getVertex_wraps:
  assumes "0 \<le> i"
  shows "getVertex i = getVertex (i mod numPoints)"
  using assms by (simp add: getVertex_def js_rem_nonneg numPoints_eq)

lemma getVertex_defined:
  assumes "0 \<le> i"
  shows "\<exists>x y. getVertex i = (Some x, Some y)"
proof -
  have "0 \<le> i mod 6" "i mod 6 < 6" by simp_all
  then show ?thesis using assms
    by (simp add: getVertex_def js_rem_nonneg numPoints_eq typed_array_get_def length_vertices Let_def)
qed

lemma getVertex_negative:
  assumes "i < 0" "i mod 6 \<noteq> 0"
  shows "getVertex i = (None, None)"
proof -
  have "(- i) mod 6 \<noteq> 0" using assms(2) by presburger
  moreover have "0 \<le> (- i) mod 6" by simp
  ultimately have "0 < (- i) mod 6" by linarith
  then show ?thesis using assms(1)
    by (simp add: getVertex_def js_rem_neg numPoints_eq typed_array_get_def)
qed

subsection \<open>Matrices\<close>

text \<open>
  \<open>multiply\<close> composes: the right factor acts first. A translation followed by a
  rotation followed by the opposite translation is the rotation about the point
  translated to.
\<close>

lemma matrixTransform_multiply:
  "matrixTransform p (Some (multiply A B)) = matrixTransform (matrixTransform p (Some B)) (Some A)"
  by (simp add: matrixTransform_def multiply_def algebra_simps)

lemma matrixTransform_translate:
  "matrixTransform p (Some (translate M tx ty)) = matrixTransform (fst p + tx, snd p + ty) (Some M)"
  by (simp add: translate_def matrixTransform_def multiply_def algebra_simps)

lemma matrixTransform_rotate_deg:
  "matrixTransform p (Some (rotate_deg M a)) =
     matrixTransform (cos (a * pi / 180) * fst p - sin (a * pi / 180) * snd p,
                      sin (a * pi / 180) * fst p + cos (a * pi / 180) * snd p) (Some M)"
  by (simp add: rotate_deg_def Let_def matrixTransform_def multiply_def algebra_simps)

lemma matrixTransform_identity: "matrixTransform p (Some identity_matrix) = p"
  by (simp add: matrixTransform_def identity_matrix_def)

lemma conjugated_rotation:
  "matrixTransform p (Some (translate (rotate_deg (translate identity_matrix a b) r) (- a) (- b))) =
     (a + (cos (r * pi / 180) * (fst p - a) - sin (r * pi / 180) * (snd p - b)),
      b + (sin (r * pi / 180) * (fst p - a) + cos (r * pi / 180) * (snd p - b)))"
  by (simp add: matrixTransform_translate matrixTransform_rotate_deg matrixTransform_identity)


lemma conjugated_rotation_zero:
  "matrixTransform p (Some (translate (rotate_deg (translate identity_matrix a b) 0) (- a) (- b))) = p"
  by (simp add: conjugated_rotation)


subsection \<open>The renderer\<close>

text \<open>
  Both loops run to completion for every value of \<open>edge\<close>: every vertex read is
  defined and every point looked up exists.
\<close>

lemma length_vertex_pixels: "length (vertex_pixels w h) = 6"
  by (simp add: vertex_pixels_def)

lemma vertex_pixels_nth:
  assumes "0 \<le> i" "i < 6" "getVertex i = (Some x, Some y)"
  shows "vertex_pixels w h ! nat i = mapToViewport w h x y 5"
proof -
  from assms(1,2) have "i = 0 \<or> i = 1 \<or> i = 2 \<or> i = 3 \<or> i = 4 \<or> i = 5" by arith
  then show ?thesis using assms(3)
    by (elim disjE) (simp_all add: getVertex_values vertex_pixels_def mapToViewport_def)
qed

lemma project_loop_eval:
  "project_loop w h edge rot 0 [] None = Inr (vertex_pixels w h, pivot_matrix w h edge rot)"
proof -
  consider "edge = None" | e where "edge = Some e" "e < 0 \<or> 6 \<le> e"
    | "edge = Some 0" | "edge = Some 1" | "edge = Some 2" | "edge = Some 3" | "edge = Some 4" | "edge = Some 5"
  proof (cases edge)
    case None then show ?thesis using that by simp
  next
    case (Some e)
    have "e < 0 \<or> 6 \<le> e \<or> e = 0 \<or> e = 1 \<or> e = 2 \<or> e = 3 \<or> e = 4 \<or> e = 5" by arith
    with Some show ?thesis using that by blast
  qed
  then show ?thesis
  proof cases
    case 1
    then show ?thesis
      by (simp add: project_loop.simps numPoints_eq getVertex_values mapToViewport_def
            vertex_pixels_def pivot_matrix_def)
  next
    case 2
    then show ?thesis
      by (auto simp add: project_loop.simps numPoints_eq getVertex_values mapToViewport_def
            vertex_pixels_def pivot_matrix_def)
  next
    case 3
    then show ?thesis
      by (simp add: project_loop.simps numPoints_eq getVertex_values mapToViewport_def
            vertex_pixels_def pivot_matrix_def)
  next
    case 4
    then show ?thesis
      by (simp add: project_loop.simps numPoints_eq getVertex_values mapToViewport_def
            vertex_pixels_def pivot_matrix_def)
  next
    case 5
    then show ?thesis
      by (simp add: project_loop.simps numPoints_eq getVertex_values mapToViewport_def
            vertex_pixels_def pivot_matrix_def)
  next
    case 6
    then show ?thesis
      by (simp add: project_loop.simps numPoints_eq getVertex_values mapToViewport_def
            vertex_pixels_def pivot_matrix_def)
  next
    case 7
    then show ?thesis
      by (simp add: project_loop.simps numPoints_eq getVertex_values mapToViewport_def
            vertex_pixels_def pivot_matrix_def)
  next
    case 8
    then show ?thesis
      by (simp add: project_loop.simps numPoints_eq getVertex_values mapToViewport_def
            vertex_pixels_def pivot_matrix_def)
  qed
qed

lemma path_loop_eval:
  "path_loop [p0, p1, p2, p3, p4, p5] m 0 calls =
     Inr (calls @
       [MoveTo (fst (matrixTransform p0 m)) (snd (matrixTransform p0 m)),
        LineTo (fst (matrixTransform p1 m)) (snd (matrixTransform p1 m)),
        LineTo (fst (matrixTransform p2 m)) (snd (matrixTransform p2 m)),
        LineTo (fst (matrixTransform p3 m)) (snd (matrixTransform p3 m)),
        LineTo (fst (matrixTransform p4 m)) (snd (matrixTransform p4 m)),
        LineTo (fst (matrixTransform p5 m)) (snd (matrixTransform p5 m))])"
  by (simp add: path_loop.simps numPoints_eq Let_def)

lemma draw_total:
  "\<exists>calls. draw w h edge rot = Inr calls \<and>
     drawn_points calls = map (\<lambda>p. matrixTransform p (pivot_matrix w h edge rot)) (vertex_pixels w h)"
  by (simp add: draw_def project_loop_eval) (simp add: vertex_pixels_def path_loop_eval)

lemma draw_depends_on_matrix:
  "pivot_matrix w h e1 rot = pivot_matrix w h e2 rot \<Longrightarrow> draw w h e1 rot = draw w h e2 rot"
  by (simp add: draw_def project_loop_eval)


lemma pivot_matrix_Some:
  assumes "0 \<le> e" "e < 6"
  shows "pivot_matrix w h (Some e) rot =
     Some (translate (rotate_deg (translate identity_matrix
             (w - fst (vertex_pixels w h ! nat e)) (h - snd (vertex_pixels w h ! nat e))) rot)
             (- (w - fst (vertex_pixels w h ! nat e))) (- (h - snd (vertex_pixels w h ! nat e))))"
  unfolding pivot_matrix_def using assms by (simp only: option.case simp_thms if_True)

lemma pivot_matrix_None:
  assumes "edge = None \<or> (\<exists>e. edge = Some e \<and> (e < 0 \<or> 6 \<le> e))"
  shows "pivot_matrix w h edge rot = None"
  using assms by (auto simp add: pivot_matrix_def)

lemma pivot_matrix_zero: "matrixTransform p (pivot_matrix w h edge 0) = p"
proof (cases edge)
  case None
  then show ?thesis by (simp add: pivot_matrix_None matrixTransform_def)
next
  case (Some e)
  show ?thesis
  proof (cases "0 \<le> e \<and> e < 6")
    case True
    then show ?thesis unfolding Some
      by (simp only: pivot_matrix_Some conjugated_rotation_zero)
  next
    case False
    then have "pivot_matrix w h edge 0 = None" using Some by (intro pivot_matrix_None) auto
    then show ?thesis by (simp add: matrixTransform_def)
  qed
qed


subsection \<open>The pivot selector\<close>

lemma keydown_range: "keydown key edge = edge \<or> keydown key edge \<in> {Some 0, Some 1, Some 2, Some 3}"
  by (auto simp add: keydown_def indexCoord_def)

lemma edge_reachable_range:
  "edge_reachable edge \<Longrightarrow> edge \<in> {Some 0, Some 1, Some 2, Some 3}"
proof (induction rule: edge_reachable.induct)
  case initial
  show ?case by (simp add: edge_init_def)
next
  case (key_event edge key)
  with keydown_range [of key edge] show ?case by auto
qed

subsection \<open>The animation driver\<close>

lemma length_runanimation: "length (runanimation n r) = n"
  by (induction n arbitrary: r) simp_all

lemma runanimation_nth:
  "k < n \<Longrightarrow> runanimation n r ! k = (next_rotation ^^ k) r"
proof (induction n arbitrary: r k)
  case 0
  then show ?case by simp
next
  case (Suc n)
  show ?case
  proof (cases k)
    case 0
    then show ?thesis by simp
  next
    case (Suc j)
    with Suc.prems have "j < n" by simp
    from Suc.IH [OF this] Suc show ?thesis
      by (simp add: funpow_swap1)
  qed
qed

lemma rendered_funpow: "rendered k = (next_rotation ^^ k) 0"
  unfolding rendered_def by (rule runanimation_nth) simp

lemma rendered_Suc: "rendered (Suc k) = next_rotation (rendered k)"
  by (simp add: rendered_funpow)

lemma rendered_period: "rendered k = - 2 * int (k mod 181)"
proof (induction k)
  case 0
  show ?case by (simp add: rendered_funpow)
next
  case (Suc k)
  have lt: "k mod 181 < 181" by simp
  show ?case
  proof (cases "k mod 181 = 180")
    case True
    then have "Suc k mod 181 = 0" by (simp add: mod_Suc)
    with True Suc show ?thesis
      by (simp add: rendered_Suc next_rotation_def)
  next
    case False
    with lt have "k mod 181 < 180" by linarith
    moreover from False have "Suc k mod 181 = Suc (k mod 181)" by (simp add: mod_Suc)
    ultimately show ?thesis using Suc
      by (simp add: rendered_Suc next_rotation_def Let_def)
  qed
qed

lemma rendered_90: "rendered 90 = - 180"
  by (simp add: rendered_period)

section \<open>The claims\<close>

text \<open>
  Claim C1: the transform that \<open>draw\<close> builds leaves the pivot's pixel point
  in place. The code does not do that. From the vertex with index \<open>edge\<close>, at
  pixel \<open>(x, y)\<close>, it builds translate \<open>(w - x, h - y)\<close>, rotate, translate
  \<open>(x - w, y - h)\<close>, which turns about \<open>(w - x, h - y)\<close> and not about
  \<open>(x, y)\<close>. On a 400 by 400 canvas with the initial \<open>edge = 0\<close>, at frame 90
  (angle -180): the pivot vertex \<open>(-0.5, -0.5)\<close> has pixel \<open>(160, 240)\<close>, the
  matrix sends that point to \<open>(320, 80)\<close>, and \<open>draw\<close> starts the polygon
  there; the point drawn where it was projected is \<open>(240, 160)\<close>, the pixel of
  the opposite vertex \<open>(0.5, 0.5)\<close>.
\<close>

theorem pivot_moved_at_half_turn:
  "edge_init = Some 0 \<and> rendered 90 = - 180 \<and>
   getVertex 0 = (Some (- (1 / 2)), Some (- (1 / 2))) \<and>
   mapToViewport 400 400 (- (1 / 2)) (- (1 / 2)) 5 = (160, 240) \<and>
   project_loop 400 400 edge_init (real_of_int (rendered 90)) 0 [] None =
     Inr ([(160, 240), (240, 240), (240, 160), (160, 240), (240, 160), (160, 160)],
          Some \<lparr>m11 = - 1, m12 = 0, m21 = 0, m22 = - 1, m41 = 480, m42 = 320\<rparr>) \<and>
   matrixTransform (160, 240)
     (Some \<lparr>m11 = - 1, m12 = 0, m21 = 0, m22 = - 1, m41 = 480, m42 = 320\<rparr>) = (320, 80) \<and>
   draw 400 400 edge_init (real_of_int (rendered 90)) =
     Inr [FillStyle ''rgba(255, 255, 255, 1)'', Rect 0 0 400 400, Fill, BeginPath,
          MoveTo 320 80, LineTo 240 80, LineTo 240 160, LineTo 320 80, LineTo 240 160, LineTo 320 160,
          ClosePath, FillStyle ''rgba(0, 204, 204, 1)'', Fill]"
proof -
  have m: "pivot_matrix 400 400 (Some 0) (- 180) =
      Some \<lparr>m11 = - 1, m12 = 0, m21 = 0, m22 = - 1, m41 = 480, m42 = 320\<rparr>"
    by (simp add: pivot_matrix_def vertex_pixels_def translate_def rotate_deg_def
          multiply_def identity_matrix_def)
  have p: "vertex_pixels 400 400 =
      [(160, 240), (240, 240), (240, 160), (160, 240), (240, 160), (160, 160)]"
    by (simp add: vertex_pixels_def)
  have l: "project_loop 400 400 (Some 0) (- 180) 0 [] None =
     Inr ([(160, 240), (240, 240), (240, 160), (160, 240), (240, 160), (160, 160)],
          Some \<lparr>m11 = - 1, m12 = 0, m21 = 0, m22 = - 1, m41 = 480, m42 = 320\<rparr>)"
    by (simp only: project_loop_eval m p)
  have d: "draw 400 400 (Some 0) (- 180) =
     Inr [FillStyle ''rgba(255, 255, 255, 1)'', Rect 0 0 400 400, Fill, BeginPath,
          MoveTo 320 80, LineTo 240 80, LineTo 240 160, LineTo 320 80, LineTo 240 160, LineTo 320 160,
          ClosePath, FillStyle ''rgba(0, 204, 204, 1)'', Fill]"
    by (simp add: draw_def l path_loop_eval matrixTransform_def)
  show ?thesis
    by (simp add: edge_init_def rendered_90 l d getVertex_values)
       (simp add: mapToViewport_def matrixTransform_def)
qed

text \<open>
  Claim C2, as amended. The array holds six vertices, so the index wraps modulo 6,
  not 4; and \<open>%\<close> keeps the sign of its left operand, so it wraps only for
  indices from 0 upwards. For every integer \<open>i \<ge> 0\<close>, \<open>getVertex i\<close> equals
  \<open>getVertex (i mod numPoints)\<close> and both coordinates are defined. For a negative
  \<open>i\<close> that is no multiple of 6 both reads fall before the start of the array:
  nothing is thrown, the result is the pair of two \<open>undefined\<close>.
\<close>

theorem getVertex_wraps_modulo_numPoints:
  "(0 \<le> i \<longrightarrow> getVertex i = getVertex (i mod numPoints) \<and> (\<exists>x y. getVertex i = (Some x, Some y))) \<and>
   (i < 0 \<and> i mod numPoints \<noteq> 0 \<longrightarrow> getVertex i = (None, None)) \<and>
   numPoints = 6"
  using getVertex_wraps [of i] getVertex_defined [of i] getVertex_negative [of i]
  by (simp add: numPoints_eq)

theorem getVertex_wraps_modulo_numPoints_witness:
  "getVertex 8 = getVertex 2 \<and> getVertex 2 = (Some (1 / 2), Some (1 / 2)) \<and>
   getVertex (- 4) = (None, None)"
proof -
  have a: "getVertex 8 = getVertex (8 mod numPoints)"
    using getVertex_wraps_modulo_numPoints [of 8] by simp
  have b: "getVertex (- 4) = (None, None)"
    using getVertex_wraps_modulo_numPoints [of "- 4"] by (simp add: numPoints_eq)
  from a b show ?thesis by (simp add: numPoints_eq getVertex_values)
qed

text \<open>
  Claim C2 as stated (wrap modulo 4 under the mathematical modulo, for every
  integer) fails at \<open>i = 4\<close>, where index 4 holds \<open>(0.5, 0.5)\<close> and index 0 holds
  \<open>(-0.5, -0.5)\<close>, and at \<open>i = -1\<close>, which yields no vertex at all.
\<close>

theorem getVertex_modulo_four_counterexample:
  "getVertex 4 \<noteq> getVertex (4 mod 4) \<and> getVertex (- 1) \<noteq> getVertex ((- 1) mod 4) \<and>
   getVertex (- 1) = (None, None)"
  by (simp add: getVertex_def js_rem_def numPoints_eq typed_array_get_def vertices_def)

text \<open>
  Claim C3, as amended. The claim puts every rendered angle in the half-open interval
  from -360 (excluded) to 0 (included). The reset test is \<open>rotation < -360\<close>, so
  -360 itself survives the test and is rendered: at every frame the angle handed to
  \<open>draw\<close> lies in the closed interval from -360 to 0, and it is -360 exactly at
  the frames whose number is 180 modulo 181.
\<close>

theorem rendered_angle_range:
  "- 360 \<le> rendered k \<and> rendered k \<le> 0 \<and> (rendered k = - 360 \<longleftrightarrow> k mod 181 = 180)"
proof -
  have "k mod 181 < 181" by simp
  then have "k mod 181 \<le> 180" by linarith
  then show ?thesis by (auto simp add: rendered_period)
qed

text \<open>
  Claim C3 as stated fails at frame 180: the angle rendered there is -360, which is
  not greater than -360.
\<close>

theorem rendered_angle_open_interval_counterexample:
  "rendered 180 = - 360 \<and> \<not> (- 360 < rendered 180 \<and> rendered 180 \<le> 0)"
  by (simp add: rendered_period)

text \<open>
  Claim C4. Starting from 0, frame \<open>k\<close> renders \<open>-2k\<close> for every \<open>k\<close> up to
  179, frame 180 renders exactly -360, the update after that frame yields 0, and frame
  181 renders 0 again. The reset stores the constant 0 whatever the overshoot is: any
  angle whose decrement falls below -360 is followed by 0.
\<close>

theorem rendered_sequence:
  "(k \<le> 180 \<longrightarrow> rendered k = - 2 * int k) \<and>
   rendered 180 = - 360 \<and>
   next_rotation (rendered 180) = 0 \<and>
   rendered 181 = 0 \<and>
   (r - 2 < - 360 \<longrightarrow> next_rotation r = 0)"
  by (simp add: rendered_period next_rotation_def)

theorem rendered_sequence_witness:
  "rendered 179 = - 358 \<and> rendered 180 = - 360 \<and> rendered 181 = 0 \<and> next_rotation (- 359) = 0"
  using rendered_sequence [of 179 "- 359"] by simp

text \<open>
  Claim C5. At the rotation angle 0 the transform is the identity: whatever the
  value of \<open>edge\<close> and the canvas size, \<open>draw\<close> completes, the path it
  draws has one point per stored vertex, and the point drawn for vertex \<open>i\<close> is
  \<open>mapToViewport\<close> of that vertex.
\<close>

theorem zero_rotation_draws_projected_vertices:
  "\<exists>calls. draw w h edge 0 = Inr calls \<and>
     length (drawn_points calls) = nat numPoints \<and>
     (\<forall>i. 0 \<le> i \<and> i < numPoints \<longrightarrow>
        (\<exists>x y. getVertex i = (Some x, Some y) \<and>
               drawn_points calls ! nat i = mapToViewport w h x y 5))"
proof -
  from draw_total [of w h edge 0] obtain calls where
    c: "draw w h edge 0 = Inr calls"
       "drawn_points calls = map (\<lambda>p. matrixTransform p (pivot_matrix w h edge 0)) (vertex_pixels w h)"
    by blast
  from c(2) have d: "drawn_points calls = vertex_pixels w h"
    by (simp add: pivot_matrix_zero)
  have "\<exists>x y. getVertex i = (Some x, Some y) \<and> drawn_points calls ! nat i = mapToViewport w h x y 5"
    if "0 \<le> i" "i < numPoints" for i
  proof -
    from that have i: "0 \<le> i" "i < 6" by (simp_all add: numPoints_eq)
    from getVertex_defined [OF i(1)] obtain x y where v: "getVertex i = (Some x, Some y)" by blast
    with vertex_pixels_nth [OF i v, of w h] d show ?thesis by simp
  qed
  with c(1) d show ?thesis by (auto simp add: length_vertex_pixels numPoints_eq)
qed

theorem zero_rotation_draws_projected_vertices_witness:
  "\<exists>calls. draw 400 400 (Some 2) 0 = Inr calls \<and>
     length (drawn_points calls) = 6 \<and>
     drawn_points calls ! 5 = mapToViewport 400 400 (- (1 / 2)) (1 / 2) 5"
proof -
  from zero_rotation_draws_projected_vertices [of 400 400 "Some 2"] obtain calls where
    c: "draw 400 400 (Some 2) 0 = Inr calls" "length (drawn_points calls) = nat numPoints"
       "\<forall>i. 0 \<le> i \<and> i < numPoints \<longrightarrow>
        (\<exists>x y. getVertex i = (Some x, Some y) \<and>
               drawn_points calls ! nat i = mapToViewport 400 400 x y 5)"
    by blast
  have "(0::int) \<le> 5 \<and> 5 < numPoints" by (simp add: numPoints_eq)
  with c(3) have "\<exists>x y. getVertex 5 = (Some x, Some y) \<and>
               drawn_points calls ! nat 5 = mapToViewport 400 400 x y 5"
    by blast
  then obtain x y where xy: "getVertex 5 = (Some x, Some y)"
      "drawn_points calls ! nat 5 = mapToViewport 400 400 x y 5"
    by blast
  from xy(1) have "x = - (1 / 2)" "y = 1 / 2" by (simp_all add: getVertex_values)
  with xy(2) have "drawn_points calls ! 5 = mapToViewport 400 400 (- (1 / 2)) (1 / 2) 5"
    by simp
  with c(1,2) show ?thesis by (simp add: numPoints_eq)
qed

text \<open>
  Claim C6. A key other than \<open>r\<close>, \<open>g\<close>, \<open>b\<close>, \<open>w\<close> leaves \<open>edge\<close>
  as it was; each of the four keys stores its index 0, 1, 2, 3 whatever the value
  before; pressed one after the other they leave 0, 1, 2, 3 in turn. The handler is
  a total function: there is no error case.
\<close>

theorem keydown_recognized_or_ignored:
  "(key \<noteq> ''r'' \<and> key \<noteq> ''g'' \<and> key \<noteq> ''b'' \<and> key \<noteq> ''w'' \<longrightarrow> keydown key edge = edge) \<and>
   keydown ''r'' edge = Some 0 \<and>
   keydown ''g'' edge = Some 1 \<and>
   keydown ''b'' edge = Some 2 \<and>
   keydown ''w'' edge = Some 3 \<and>
   keydown ''g'' (keydown ''r'' edge) = Some 1 \<and>
   keydown ''b'' (keydown ''g'' (keydown ''r'' edge)) = Some 2 \<and>
   keydown ''w'' (keydown ''b'' (keydown ''g'' (keydown ''r'' edge))) = Some 3"
  by (simp add: keydown_def indexCoord_def)

theorem keydown_recognized_or_ignored_witness:
  "keydown ''x'' (Some 2) = Some 2 \<and> keydown ''R'' (Some 2) = Some 2 \<and>
   keydown ''Enter'' (Some 1) = Some 1 \<and> keydown ''r'' (Some 2) = Some 0 \<and>
   keydown ''w'' (keydown ''b'' (keydown ''g'' (keydown ''r'' (Some 3)))) = Some 3"
  using keydown_recognized_or_ignored [of "''x''" "Some 2"]
    keydown_recognized_or_ignored [of "''R''" "Some 2"]
    keydown_recognized_or_ignored [of "''Enter''" "Some 1"]
    keydown_recognized_or_ignored [of "''r''" "Some 3"]
  by simp

text \<open>
  Claim C7. \<open>edge\<close> starts as 0; every value it can reach through key events is
  one of 0, 1, 2, 3; each of those is the index of a stored vertex; and for such a
  value the first loop of \<open>draw\<close> always takes the branch \<open>i == edge\<close>: it
  returns a matrix, not \<open>undefined\<close>, for every canvas size and angle.
\<close>

theorem pivot_index_valid:
  assumes "edge_reachable edge"
  shows "edge_init = Some 0 \<and>
     edge \<in> {Some 0, Some 1, Some 2, Some 3} \<and>
     (\<exists>i. edge = Some i \<and> 0 \<le> i \<and> i < numPoints \<and> (\<exists>x y. getVertex i = (Some x, Some y)) \<and>
        (\<forall>w h rotation. \<exists>points M.
           project_loop w h edge rotation 0 [] None = Inr (points, Some M) \<and>
           nat i < length points))"
proof -
  from edge_reachable_range [OF assms] obtain i where i: "edge = Some i" "0 \<le> i" "i < 4"
    by auto
  then have i6: "i < 6" by simp
  have "\<exists>points M. project_loop w h edge rotation 0 [] None = Inr (points, Some M) \<and> nat i < length points"
    for w h rotation
    using i(2) i6 by (simp add: project_loop_eval i(1) pivot_matrix_Some length_vertex_pixels)
  with i i6 getVertex_defined [OF i(2)] edge_reachable_range [OF assms] show ?thesis
    by (simp add: edge_init_def numPoints_eq)
qed

theorem pivot_index_valid_witness:
  "edge_reachable (keydown ''b'' (keydown ''q'' edge_init)) \<and>
   keydown ''b'' (keydown ''q'' edge_init) = Some 2 \<and>
   (\<exists>points M. project_loop 400 400 (Some 2) (- 90) 0 [] None = Inr (points, Some M))"
proof -
  have r: "edge_reachable (keydown ''b'' (keydown ''q'' edge_init))"
    by (intro edge_reachable.intros)
  have k: "keydown ''b'' (keydown ''q'' edge_init) = Some 2"
    by (simp add: keydown_def indexCoord_def)
  from pivot_index_valid [OF r] have
    "\<forall>w h rotation. \<exists>points M.
        project_loop w h (keydown ''b'' (keydown ''q'' edge_init)) rotation 0 [] None = Inr (points, Some M)"
    by blast
  then have "\<exists>points M. project_loop 400 400 (keydown ''b'' (keydown ''q'' edge_init)) (- 90) 0 [] None = Inr (points, Some M)"
    by blast
  with r k show ?thesis by simp
qed

text \<open>
  What the vertex array and the key table give: the array has six entries; entries
  0 and 3 are both the vertex \<open>(-0.5, -0.5)\<close>; the keys \<open>r\<close> and \<open>w\<close> store
  the indices 0 and 3, and \<open>draw\<close> makes the same canvas calls for both, for
  every canvas size and angle; the vertex \<open>(-0.5, 0.5)\<close> sits at index 5 only,
  and no key event stores 5 or an index that holds that vertex.
\<close>

lemma duplicate_vertex_same_calls:
  "numPoints = 6 \<and>
   getVertex 0 = (Some (- (1 / 2)), Some (- (1 / 2))) \<and>
   getVertex 3 = (Some (- (1 / 2)), Some (- (1 / 2))) \<and>
   keydown ''r'' e1 = Some 0 \<and> keydown ''w'' e2 = Some 3 \<and>
   draw w h (keydown ''r'' e1) rotation = draw w h (keydown ''w'' e2) rotation \<and>
   getVertex 5 = (Some (- (1 / 2)), Some (1 / 2)) \<and>
   (edge_reachable edge \<longrightarrow>
      (\<exists>i. keydown key edge = Some i \<and> i \<noteq> 5 \<and> getVertex i \<noteq> (Some (- (1 / 2)), Some (1 / 2))))"
proof -
  have k: "keydown ''r'' e1 = Some 0" "keydown ''w'' e2 = Some 3"
    by (simp_all add: keydown_def indexCoord_def)
  have "pivot_matrix w h (Some 0) rotation = pivot_matrix w h (Some 3) rotation"
    by (simp add: pivot_matrix_def vertex_pixels_def)
  then have d: "draw w h (keydown ''r'' e1) rotation = draw w h (keydown ''w'' e2) rotation"
    unfolding k by (rule draw_depends_on_matrix)
  have "\<exists>i. keydown key edge = Some i \<and> i \<noteq> 5 \<and> getVertex i \<noteq> (Some (- (1 / 2)), Some (1 / 2))"
    if "edge_reachable edge"
  proof -
    from that have "edge_reachable (keydown key edge)" by (rule edge_reachable.key_event)
    from edge_reachable_range [OF this] show ?thesis
      by (auto simp add: getVertex_values)
  qed
  with k d show ?thesis by (simp add: numPoints_eq getVertex_values)
qed


end
